theory Spec2Isabelle
  imports Complex_Main "HOL-Library.Word"
begin

unbundle bit_operations_syntax

section \<open>Error taxonomy (store/core/exceptions.py)\<close>

text \<open>
  The module declares three classes. Each carries a class attribute \<open>message\<close>; the
  constructor inherited from the base class overwrites it on the instance only when the
  argument is truthy:
  \<^verbatim>\<open>
  def __init__(self, message: str | None = None) -> None:
      if message:
          self.message = message
  \<close>
\<close>

datatype exception_class = BaseException | NotFoundException | InsertionException

fun class_message :: "exception_class \<Rightarrow> string" where
  "class_message BaseException = ''Internal Server Error''"
| "class_message NotFoundException = ''Not Found''"
| "class_message InsertionException = ''Error inserting product''"

text \<open>Python truthiness of a \<open>str | None\<close>: \<open>None\<close> and the empty string are falsy.\<close>

fun truthy_str :: "string option \<Rightarrow> bool" where
  "truthy_str None = False"
| "truthy_str (Some s) = (s \<noteq> [])"

text \<open>An instance of one of the three classes, with the value read from its \<open>message\<close>.\<close>

datatype core_exception = CoreException (exc_class: exception_class) (message: string)

definition init :: "exception_class \<Rightarrow> string option \<Rightarrow> core_exception" where
  "init k m =
     (if truthy_str m
      then (case m of Some s \<Rightarrow> CoreException k s | None \<Rightarrow> CoreException k (class_message k))
      else CoreException k (class_message k))"

section \<open>Values: UUIDs, decimals, timestamps\<close>

text \<open>
  A UUID is a 128-bit integer. Python prints it as 32 lower-case hexadecimal digits
  grouped 8-4-4-4-12; the f-strings of the use case embed that text.
\<close>

type_synonym uuid = "128 word"

definition hex_digit :: "nat \<Rightarrow> char" where
  "hex_digit n = ''0123456789abcdef'' ! n"

definition nibble :: "uuid \<Rightarrow> nat \<Rightarrow> nat" where
  "nibble u i = unat (drop_bit (4 * (31 - i)) u AND 15)"

definition uuid_hex :: "uuid \<Rightarrow> string" where
  "uuid_hex u = map (\<lambda>i. hex_digit (nibble u i)) [0..<32]"

definition str_uuid :: "uuid \<Rightarrow> string" where
  "str_uuid u =
     (let h = uuid_hex u
      in take 8 h @ ''-'' @ take 4 (drop 8 h) @ ''-'' @ take 4 (drop 12 h) @ ''-''
         @ take 4 (drop 16 h) @ ''-'' @ drop 20 h)"

text \<open>
  A finite \<open>Decimal\<close>: a coefficient and a power of ten. \<open>Decimal("8.500")\<close> is
  \<open>Decimal 8500 (-3)\<close>, which is numerically equal to, but not the same object as,
  \<open>Decimal 85 (-1)\<close>. Comparisons are by exact numeric value.
\<close>

datatype decimal = Decimal (coefficient: int) (exponent: int)

definition dec_value :: "decimal \<Rightarrow> rat" where
  "dec_value d =
     (if 0 \<le> exponent d then of_int (coefficient d) * 10 ^ nat (exponent d)
      else of_int (coefficient d) / 10 ^ nat (- exponent d))"

text \<open>A naive UTC timestamp, counted in microseconds.\<close>

type_synonym datetime = int

section \<open>Entity schema\<close>

text \<open>
  Modelled from the spec: the schema classes \<open>ProductIn\<close>, \<open>ProductOut\<close>,
  \<open>ProductUpdate\<close>, \<open>ProductUpdateOut\<close> (store/schemas/product.py) and
  \<open>ProductModel\<close> (store/models/product.py) are imported by the use case but are not
  among the source files. The spec gives a Product the caller-supplied fields \<open>name\<close>,
  \<open>quantity\<close>, \<open>price\<close>, \<open>status\<close> and the generated fields \<open>id\<close>,
  \<open>created_at\<close>, \<open>updated_at\<close>; the update form carries any subset of the four
  caller-supplied fields.
\<close>

record ProductIn =
  name :: string
  quantity :: int
  price :: decimal
  status :: bool

record ProductOut = ProductIn +
  id_of :: uuid
  created_at :: datetime
  updated_at :: datetime

type_synonym ProductModel = ProductOut
type_synonym ProductUpdateOut = ProductOut

text \<open>
  A field of the update form is either left out of the request, so that it holds its
  default \<open>None\<close>, or supplied, possibly with the value \<open>None\<close>.
\<close>

datatype 'a field = Omitted | Supplied "'a option"

fun field_value :: "'a field \<Rightarrow> 'a option" where
  "field_value Omitted = None"
| "field_value (Supplied v) = v"

record ProductUpdate =
  name_up :: "string field"
  quantity_up :: "int field"
  price_up :: "decimal field"
  status_up :: "bool field"

text \<open>The values generated when a \<open>ProductModel\<close> is constructed.\<close>

record defaults =
  uuid4 :: uuid
  utcnow_created :: datetime
  utcnow_updated :: datetime

section \<open>Documents\<close>

datatype bson =
    VObjectId nat
  | VUuid uuid
  | VStr string
  | VInt int
  | VDecimal decimal
  | VBool bool
  | VDatetime datetime

type_synonym document = "string \<rightharpoonup> bson"

definition ProductModel :: "defaults \<Rightarrow> ProductIn \<Rightarrow> ProductModel" where
  "ProductModel g body =
     \<lparr>name = name body, quantity = quantity body, price = price body, status = status body,
      id_of = uuid4 g, created_at = utcnow_created g, updated_at = utcnow_updated g\<rparr>"

definition model_dump :: "ProductModel \<Rightarrow> document" where
  "model_dump p =
     [''id'' \<mapsto> VUuid (id_of p),
      ''created_at'' \<mapsto> VDatetime (created_at p),
      ''updated_at'' \<mapsto> VDatetime (updated_at p),
      ''name'' \<mapsto> VStr (name p),
      ''quantity'' \<mapsto> VInt (quantity p),
      ''price'' \<mapsto> VDecimal (price p),
      ''status'' \<mapsto> VBool (status p)]"

text \<open>\<open>model_dump(exclude_none=True)\<close> of the update form: a key for every field whose
  value is not \<open>None\<close>, whether the field was supplied or not.\<close>

definition put :: "string \<Rightarrow> bson option \<Rightarrow> document \<Rightarrow> document" where
  "put k v d = (case v of None \<Rightarrow> d | Some x \<Rightarrow> d(k \<mapsto> x))"

definition model_dump_exclude_none :: "ProductUpdate \<Rightarrow> document" where
  "model_dump_exclude_none body =
     put ''status'' (map_option VBool (field_value (status_up body)))
       (put ''price'' (map_option VDecimal (field_value (price_up body)))
         (put ''quantity'' (map_option VInt (field_value (quantity_up body)))
           (put ''name'' (map_option VStr (field_value (name_up body))) Map.empty)))"

text \<open>Exceptions below the use case: the driver's, the validator's and the
  interpreter's, each with the text
  that \<open>str(e)\<close> gives.\<close>

datatype py_exception =
    DuplicateKeyError string
  | ValidationError string
  | AttributeError string
  | Exception string

fun str_exc :: "py_exception \<Rightarrow> string" where
  "str_exc (DuplicateKeyError s) = s"
| "str_exc (ValidationError s) = s"
| "str_exc (AttributeError s) = s"
| "str_exc (Exception s) = s"

text \<open>Building the output view from a document, \<open>ProductOut(**item)\<close>: every field must
  be present with a value of its type; other keys (the store's own \<open>_id\<close>) are ignored.\<close>

fun as_str :: "bson option \<Rightarrow> string option" where
  "as_str (Some (VStr s)) = Some s"
| "as_str _ = None"

fun as_int :: "bson option \<Rightarrow> int option" where
  "as_int (Some (VInt n)) = Some n"
| "as_int _ = None"

fun as_decimal :: "bson option \<Rightarrow> decimal option" where
  "as_decimal (Some (VDecimal x)) = Some x"
| "as_decimal _ = None"

fun as_bool :: "bson option \<Rightarrow> bool option" where
  "as_bool (Some (VBool b)) = Some b"
| "as_bool _ = None"

fun as_uuid :: "bson option \<Rightarrow> uuid option" where
  "as_uuid (Some (VUuid u)) = Some u"
| "as_uuid _ = None"

fun as_datetime :: "bson option \<Rightarrow> datetime option" where
  "as_datetime (Some (VDatetime t)) = Some t"
| "as_datetime _ = None"

definition ProductOut :: "document \<Rightarrow> py_exception + ProductOut" where
  "ProductOut d =
     (case (as_str (d ''name''), as_int (d ''quantity''), as_decimal (d ''price''),
            as_bool (d ''status''), as_uuid (d ''id''), as_datetime (d ''created_at''),
            as_datetime (d ''updated_at'')) of
        (Some n, Some q, Some p, Some s, Some i, Some c, Some u) \<Rightarrow>
           Inr \<lparr>name = n, quantity = q, price = p, status = s,
                id_of = i, created_at = c, updated_at = u\<rparr>
      | _ \<Rightarrow> Inl (ValidationError ''validation error for ProductOut''))"

fun ProductOut_all :: "document list \<Rightarrow> py_exception + ProductOut list" where
  "ProductOut_all [] = Inr []"
| "ProductOut_all (d # ds) =
     (case ProductOut d of
        Inl e \<Rightarrow> Inl e
      | Inr p \<Rightarrow> (case ProductOut_all ds of Inl e \<Rightarrow> Inl e | Inr ps \<Rightarrow> Inr (p # ps)))"

section \<open>Persistence adapter\<close>

text \<open>
  Modelled from the spec: the collection handle comes from store/db/mongo.py, which is
  not among the source files, and its methods belong to the database driver. The model
  keeps what the use case can observe of one collection: the documents in store order,
  the fields under a unique index, the counter from which the store draws its own
  surrogate \<open>_id\<close>, and, per method name, the exception a call of that method raises when
  the store is unreachable or the method is patched (as the tests do with
  \<open>side_effect\<close>). A method that raises leaves the collection as it was.
\<close>

record collection =
  documents :: "document list"
  unique_index :: "string list"
  next_oid :: nat
  side_effect :: "string \<Rightarrow> py_exception option"

text \<open>A query document maps a field either to a value, matched by equality, or to a
  document of comparison operators, all of which must hold.\<close>

datatype condition = Equals bson | Operators "(string \<times> bson) list"

type_synonym filter_query = "(string \<times> condition) list"

fun numeric :: "bson \<Rightarrow> rat option" where
  "numeric (VInt n) = Some (of_int n)"
| "numeric (VDecimal d) = Some (dec_value d)"
| "numeric _ = None"

definition operator_holds :: "bson \<Rightarrow> string \<times> bson \<Rightarrow> bool" where
  "operator_holds v oper =
     (case (numeric v, numeric (snd oper)) of
        (Some x, Some y) \<Rightarrow>
          (if fst oper = ''$gt'' then y < x
           else if fst oper = ''$lt'' then x < y
           else False)
      | _ \<Rightarrow> False)"

fun condition_holds :: "bson option \<Rightarrow> condition \<Rightarrow> bool" where
  "condition_holds None _ = False"
| "condition_holds (Some v) (Equals w) = (v = w)"
| "condition_holds (Some v) (Operators ops) = list_all (operator_holds v) ops"

definition matches :: "filter_query \<Rightarrow> document \<Rightarrow> bool" where
  "matches f d = list_all (\<lambda>kc. condition_holds (d (fst kc)) (snd kc)) f"

text \<open>A unique index on a field admits no two documents with the same value of it (a
  missing field counts as one value).\<close>

definition unique_ok :: "string list \<Rightarrow> document list \<Rightarrow> bool" where
  "unique_ok ks ds = list_all (\<lambda>k. distinct (map (\<lambda>d. d k) ds)) ks"

fun update_first :: "('a \<Rightarrow> bool) \<Rightarrow> ('a \<Rightarrow> 'a) \<Rightarrow> 'a list \<Rightarrow> 'a list" where
  "update_first P f [] = []"
| "update_first P f (x # xs) = (if P x then f x # xs else x # update_first P f xs)"

fun remove_first :: "('a \<Rightarrow> bool) \<Rightarrow> 'a list \<Rightarrow> 'a list" where
  "remove_first P [] = []"
| "remove_first P (x # xs) = (if P x then xs else x # remove_first P xs)"

definition create_index :: "string \<Rightarrow> collection \<Rightarrow> (py_exception + unit) \<times> collection" where
  "create_index k c =
     (case side_effect c ''create_index'' of
        Some e \<Rightarrow> (Inl e, c)
      | None \<Rightarrow>
          if k \<in> set (unique_index c) then (Inr (), c)
          else if unique_ok [k] (documents c)
          then (Inr (), c\<lparr>unique_index := k # unique_index c\<rparr>)
          else (Inl (DuplicateKeyError ''E11000 duplicate key error''), c))"

definition insert_one :: "document \<Rightarrow> collection \<Rightarrow> (py_exception + unit) \<times> collection" where
  "insert_one d c =
     (case side_effect c ''insert_one'' of
        Some e \<Rightarrow> (Inl e, c)
      | None \<Rightarrow>
          (let d' = d(''_id'' \<mapsto> VObjectId (next_oid c)) in
           if unique_ok (unique_index c) (documents c @ [d'])
           then (Inr (), c\<lparr>documents := documents c @ [d'], next_oid := Suc (next_oid c)\<rparr>)
           else (Inl (DuplicateKeyError ''E11000 duplicate key error''), c)))"

definition find_one :: "filter_query \<Rightarrow> collection \<Rightarrow> (py_exception + document option) \<times> collection" where
  "find_one f c =
     (case side_effect c ''find_one'' of
        Some e \<Rightarrow> (Inl e, c)
      | None \<Rightarrow> (Inr (List.find (matches f) (documents c)), c))"

definition find_all :: "filter_query \<Rightarrow> collection \<Rightarrow> (py_exception + document list) \<times> collection" where
  "find_all f c =
     (case side_effect c ''find'' of
        Some e \<Rightarrow> (Inl e, c)
      | None \<Rightarrow> (Inr (filter (matches f) (documents c)), c))"

text \<open>\<open>find_one_and_update\<close> with \<open>{"$set": u}\<close> and \<open>ReturnDocument.AFTER\<close>: the first
  matching document takes every key of \<open>u\<close>, in one step, and is returned as updated.\<close>

definition find_one_and_update ::
  "filter_query \<Rightarrow> document \<Rightarrow> collection \<Rightarrow> (py_exception + document option) \<times> collection" where
  "find_one_and_update f u c =
     (case side_effect c ''find_one_and_update'' of
        Some e \<Rightarrow> (Inl e, c)
      | None \<Rightarrow>
          (case List.find (matches f) (documents c) of
             None \<Rightarrow> (Inr None, c)
           | Some d \<Rightarrow>
               (let ds = update_first (matches f) (\<lambda>d. d ++ u) (documents c) in
                if unique_ok (unique_index c) ds
                then (Inr (Some (d ++ u)), c\<lparr>documents := ds\<rparr>)
                else (Inl (DuplicateKeyError ''E11000 duplicate key error''), c))))"

text \<open>\<open>delete_one\<close> removes the first matching document and reports how many it removed.\<close>

definition delete_one :: "filter_query \<Rightarrow> collection \<Rightarrow> (py_exception + nat) \<times> collection" where
  "delete_one f c =
     (case side_effect c ''delete_one'' of
        Some e \<Rightarrow> (Inl e, c)
      | None \<Rightarrow>
          (Inr (if list_ex (matches f) (documents c) then 1 else 0),
           c\<lparr>documents := remove_first (matches f) (documents c)\<rparr>))"

section \<open>Product use case (store/usecases/product.py)\<close>

text \<open>
  What a call of the use case raises: an instance of one of the classes of the error
  taxonomy, or an exception from below that no handler caught.
\<close>

datatype raised = Core core_exception | Uncaught py_exception

text \<open>\<open>not result\<close> for the result of a lookup: \<open>None\<close> and the empty document are falsy.\<close>

fun not_doc :: "document option \<Rightarrow> bool" where
  "not_doc None = True"
| "not_doc (Some d) = (d = Map.empty)"

definition not_found :: "uuid \<Rightarrow> raised" where
  "not_found i =
     Core (init NotFoundException (Some (''Product not found with filter: '' @ str_uuid i)))"

text \<open>The two handlers of \<open>create\<close>, in the order of the source.\<close>

fun create_except :: "py_exception \<Rightarrow> raised" where
  "create_except (DuplicateKeyError s) =
     Core (init InsertionException (Some ''Product with this name already exists.''))"
| "create_except e =
     Core (init InsertionException (Some (''Failed to insert product: '' @ str_exc e)))"

text \<open>
  \<open>create\<close> and \<open>delete\<close> await the store twice. Requests run concurrently, so between
  the two awaits other requests may change the collection: the argument \<open>others\<close> is
  that change, and the identity is the run with no other request.
\<close>

definition create ::
  "defaults \<Rightarrow> (collection \<Rightarrow> collection) \<Rightarrow> ProductIn \<Rightarrow> collection
     \<Rightarrow> (raised + ProductOut) \<times> collection" where
  "create g others body c =
     (let product_model = ProductModel g body in
      case create_index ''name'' c of
        (Inl e, c1) \<Rightarrow> (Inl (create_except e), c1)
      | (Inr _, c1) \<Rightarrow>
          (case insert_one (model_dump product_model) (others c1) of
             (Inl e, c2) \<Rightarrow> (Inl (create_except e), c2)
           | (Inr _, c2) \<Rightarrow>
               (case ProductOut (model_dump product_model) of
                  Inl e \<Rightarrow> (Inl (Uncaught e), c2)
                | Inr out \<Rightarrow> (Inr out, c2))))"

definition get :: "uuid \<Rightarrow> collection \<Rightarrow> (raised + ProductOut) \<times> collection" where
  "get i c =
     (case find_one [(''id'', Equals (VUuid i))] c of
        (Inl e, c1) \<Rightarrow> (Inl (Uncaught e), c1)
      | (Inr result, c1) \<Rightarrow>
          if not_doc result then (Inl (not_found i), c1)
          else (case result of
                  None \<Rightarrow> (Inl (not_found i), c1)
                | Some d \<Rightarrow>
                    (case ProductOut d of
                       Inl e \<Rightarrow> (Inl (Uncaught e), c1)
                     | Inr out \<Rightarrow> (Inr out, c1))))"

definition filter_query :: "decimal option \<Rightarrow> decimal option \<Rightarrow> filter_query" where
  "filter_query min_price max_price =
     (case (min_price, max_price) of
        (Some lo, Some hi) \<Rightarrow>
          [(''price'', Operators [(''$gt'', VDecimal lo), (''$lt'', VDecimal hi)])]
      | (Some lo, None) \<Rightarrow> [(''price'', Operators [(''$gt'', VDecimal lo)])]
      | (None, Some hi) \<Rightarrow> [(''price'', Operators [(''$lt'', VDecimal hi)])]
      | (None, None) \<Rightarrow> [])"

definition query ::
  "decimal option \<Rightarrow> decimal option \<Rightarrow> collection \<Rightarrow> (raised + ProductOut list) \<times> collection" where
  "query min_price max_price c =
     (case find_all (filter_query min_price max_price) c of
        (Inl e, c1) \<Rightarrow> (Inl (Uncaught e), c1)
      | (Inr items, c1) \<Rightarrow>
          (case ProductOut_all items of
             Inl e \<Rightarrow> (Inl (Uncaught e), c1)
           | Inr outs \<Rightarrow> (Inr outs, c1)))"

text \<open>
  Line 1 of the module is \<open>import datetime\<close>, so in \<open>update\<close> the name \<open>datetime\<close>
  is the standard module. These are its public names; \<open>utcnow\<close> is not one of
  them (it is a method of the class \<open>datetime.datetime\<close>), and reading an attribute
  that a module lacks raises \<open>AttributeError\<close>.
\<close>

definition datetime_module :: "string list" where
  "datetime_module =
     [''MAXYEAR'', ''MINYEAR'', ''UTC'', ''date'', ''datetime'', ''datetime_CAPI'', ''time'',
      ''timedelta'', ''timezone'', ''tzinfo'']"

definition quoted :: "string \<Rightarrow> string" where
  "quoted s = CHR 0x27 # s @ [CHR 0x27]"

definition utcnow_error :: py_exception where
  "utcnow_error =
     AttributeError (''module '' @ quoted ''datetime'' @ '' has no attribute '' @ quoted ''utcnow'')"

text \<open>\<open>datetime.utcnow()\<close> as line 57 evaluates it; \<open>now\<close> is what the call would return
  if the module had the attribute.\<close>

definition datetime_utcnow :: "datetime \<Rightarrow> py_exception + datetime" where
  "datetime_utcnow now =
     (if ''utcnow'' \<in> set datetime_module then Inr now else Inl utcnow_error)"

text \<open>\<open>update\<close> has no handler: whatever is raised in it leaves the use case as it is.\<close>

definition update ::
  "datetime \<Rightarrow> uuid \<Rightarrow> ProductUpdate \<Rightarrow> collection \<Rightarrow> (raised + ProductUpdateOut) \<times> collection" where
  "update now i body c =
     (let update_data = model_dump_exclude_none body in
      case datetime_utcnow now of
        Inl e \<Rightarrow> (Inl (Uncaught e), c)
      | Inr t \<Rightarrow>
          (case find_one_and_update [(''id'', Equals (VUuid i))]
                  (update_data(''updated_at'' \<mapsto> VDatetime t)) c of
             (Inl e, c1) \<Rightarrow> (Inl (Uncaught e), c1)
           | (Inr result, c1) \<Rightarrow>
               if not_doc result then (Inl (not_found i), c1)
               else (case result of
                       None \<Rightarrow> (Inl (not_found i), c1)
                     | Some d \<Rightarrow>
                         (case ProductOut d of
                            Inl e \<Rightarrow> (Inl (Uncaught e), c1)
                          | Inr out \<Rightarrow> (Inr out, c1)))))"

definition delete ::
  "(collection \<Rightarrow> collection) \<Rightarrow> uuid \<Rightarrow> collection \<Rightarrow> (raised + bool) \<times> collection" where
  "delete others i c =
     (case find_one [(''id'', Equals (VUuid i))] c of
        (Inl e, c1) \<Rightarrow> (Inl (Uncaught e), c1)
      | (Inr product, c1) \<Rightarrow>
          if not_doc product then (Inl (not_found i), c1)
          else (case delete_one [(''id'', Equals (VUuid i))] (others c1) of
                  (Inl e, c2) \<Rightarrow> (Inl (Uncaught e), c2)
                | (Inr deleted_count, c2) \<Rightarrow>
                    (Inr (if deleted_count > 0 then True else False), c2)))"

section \<open>The contracts in the spec's words\<close>

text \<open>
  The spec's open price range: with a lower bound the price is strictly above it, with
  an upper bound strictly below it, and an absent bound does not constrain.
\<close>

definition open_price_range :: "decimal option \<Rightarrow> decimal option \<Rightarrow> ProductOut \<Rightarrow> bool" where
  "open_price_range lo hi p =
     ((case lo of None \<Rightarrow> True | Some a \<Rightarrow> dec_value a < dec_value (price p))
      \<and> (case hi of None \<Rightarrow> True | Some b \<Rightarrow> dec_value (price p) < dec_value b))"

text \<open>
  "The insert, or the constraint registration preceding it, fails with cause \<open>e\<close>":
  the first of the two store calls of \<open>create\<close> that raises, raises \<open>e\<close>.
\<close>

definition store_raises ::
  "defaults \<Rightarrow> (collection \<Rightarrow> collection) \<Rightarrow> ProductIn \<Rightarrow> collection \<Rightarrow> py_exception \<Rightarrow> bool" where
  "store_raises g others body c e \<longleftrightarrow>
     fst (create_index ''name'' c) = Inl e
     \<or> fst (create_index ''name'' c) = Inr ()
       \<and> fst (insert_one (model_dump (ProductModel g body))
                 (others (snd (create_index ''name'' c)))) = Inl e"

section \<open>Data of the test suite\<close>

definition empty_collection :: collection where
  "empty_collection =
     \<lparr>documents = [], unique_index = [], next_oid = 0, side_effect = (\<lambda>_. None)\<rparr>"

text \<open>The identifier that the tests look up and never insert.\<close>

definition unknown_id :: uuid where
  "unknown_id = 0x1e4f214e85f7461a89d0a751a32e3bb9"

text \<open>A stored Product whose generated identifier and timestamps are all \<open>n\<close>, and the
  document that holds it, with the store's own \<open>_id\<close>.\<close>

definition stored_product :: "int \<Rightarrow> string \<Rightarrow> int \<Rightarrow> decimal \<Rightarrow> bool \<Rightarrow> ProductOut" where
  "stored_product n nm q p s =
     \<lparr>name = nm, quantity = q, price = p, status = s,
      id_of = of_int n, created_at = n, updated_at = n\<rparr>"

definition stored_document :: "nat \<Rightarrow> ProductOut \<Rightarrow> document" where
  "stored_document oid p = (model_dump p)(''_id'' \<mapsto> VObjectId oid)"

text \<open>The values generated for the \<open>n\<close>-th Product.\<close>

definition generated :: "int \<Rightarrow> defaults" where
  "generated n = \<lparr>uuid4 = of_int n, utcnow_created = n, utcnow_updated = n\<rparr>"

text \<open>The fixture \<open>products_with_varied_prices\<close>, as stored.\<close>

definition laptop_basic :: ProductOut where
  "laptop_basic = stored_product 1 ''Laptop Basic'' 10 (Decimal 450000 (- 2)) True"

definition laptop_mid :: ProductOut where
  "laptop_mid = stored_product 2 ''Laptop Mid'' 5 (Decimal 650000 (- 2)) True"

definition laptop_high :: ProductOut where
  "laptop_high = stored_product 3 ''Laptop High'' 3 (Decimal 900000 (- 2)) True"

definition tablet :: ProductOut where
  "tablet = stored_product 4 ''Tablet'' 20 (Decimal 300000 (- 2)) False"

definition smartphone :: ProductOut where
  "smartphone = stored_product 5 ''Smartphone'' 15 (Decimal 700000 (- 2)) True"

definition products_with_varied_prices :: collection where
  "products_with_varied_prices =
     \<lparr>documents =
        [stored_document 0 laptop_basic, stored_document 1 laptop_mid,
         stored_document 2 laptop_high, stored_document 3 tablet,
         stored_document 4 smartphone],
      unique_index = [''name''], next_oid = 5, side_effect = (\<lambda>_. None)\<rparr>"

text \<open>The fixtures \<open>product_in\<close>, \<open>product_inserted\<close> (the collection after the one
  insert) and \<open>product_up\<close> (the body of the PATCH test), and a collection with one
  method patched to raise.\<close>

definition product_in :: ProductIn where
  "product_in = \<lparr>name = ''Iphone 14 Pro Max'', quantity = 10, price = Decimal 8500 (- 3), status = True\<rparr>"

definition iphone :: ProductOut where
  "iphone = stored_product 1 ''Iphone 14 Pro Max'' 10 (Decimal 8500 (- 3)) True"

definition product_inserted :: collection where
  "product_inserted =
     \<lparr>documents = [stored_document 0 iphone], unique_index = [''name''], next_oid = 1,
      side_effect = (\<lambda>_. None)\<rparr>"

definition product_up :: ProductUpdate where
  "product_up =
     \<lparr>name_up = Omitted, quantity_up = Omitted,
      price_up = Supplied (Some (Decimal 7500 (- 3))), status_up = Omitted\<rparr>"

definition patched :: "string \<Rightarrow> py_exception \<Rightarrow> collection \<Rightarrow> collection" where
  "patched method e c = c\<lparr>side_effect := (side_effect c)(method := Some e)\<rparr>"

section \<open>Facts about documents and views\<close>

lemma as_str_Some: "as_str v = Some s \<longleftrightarrow> v = Some (VStr s)"
  by (cases v rule: as_str.cases) auto

lemma as_int_Some: "as_int v = Some n \<longleftrightarrow> v = Some (VInt n)"
  by (cases v rule: as_int.cases) auto

lemma as_decimal_Some: "as_decimal v = Some x \<longleftrightarrow> v = Some (VDecimal x)"
  by (cases v rule: as_decimal.cases) auto

lemma as_bool_Some: "as_bool v = Some b \<longleftrightarrow> v = Some (VBool b)"
  by (cases v rule: as_bool.cases) auto

lemma as_uuid_Some: "as_uuid v = Some u \<longleftrightarrow> v = Some (VUuid u)"
  by (cases v rule: as_uuid.cases) auto

lemma as_datetime_Some: "as_datetime v = Some t \<longleftrightarrow> v = Some (VDatetime t)"
  by (cases v rule: as_datetime.cases) auto

lemmas as_Some =
  as_str_Some as_int_Some as_decimal_Some as_bool_Some as_uuid_Some as_datetime_Some

text \<open>A document validates as a view exactly when it holds the seven fields of the view.\<close>

lemma ProductOut_Inr:
  "ProductOut d = Inr p \<longleftrightarrow>
     d ''name'' = Some (VStr (name p)) \<and> d ''quantity'' = Some (VInt (quantity p))
     \<and> d ''price'' = Some (VDecimal (price p)) \<and> d ''status'' = Some (VBool (status p))
     \<and> d ''id'' = Some (VUuid (id_of p)) \<and> d ''created_at'' = Some (VDatetime (created_at p))
     \<and> d ''updated_at'' = Some (VDatetime (updated_at p))"
  by (cases p) (auto simp: ProductOut_def as_Some split: option.splits)

lemma ProductOut_model_dump: "ProductOut (model_dump p) = Inr p"
  by (simp add: ProductOut_Inr model_dump_def)

lemma ProductOut_stored_document: "ProductOut (stored_document oid p) = Inr p"
  by (simp add: ProductOut_Inr model_dump_def stored_document_def)

lemma ProductOut_all_filter:
  assumes "ProductOut_all ds = Inr ps"
    and "\<And>d p. ProductOut d = Inr p \<Longrightarrow> P d = Q p"
  shows "ProductOut_all (filter P ds) = Inr (filter Q ps)"
  using assms(1)
proof (induction ds arbitrary: ps)
  case Nil
  then show ?case by simp
next
  case (Cons d ds)
  then obtain p ps' where p: "ProductOut d = Inr p" and ps': "ProductOut_all ds = Inr ps'"
    and eq: "ps = p # ps'"
    by (auto split: sum.splits)
  from Cons.IH [OF ps'] assms(2) [OF p] p show ?case
    by (simp add: eq)
qed

lemma matches_filter_query:
  assumes "ProductOut d = Inr p"
  shows "matches (filter_query lo hi) d = open_price_range lo hi p"
proof -
  from assms have pr: "d ''price'' = Some (VDecimal (price p))"
    by (simp add: ProductOut_Inr)
  show ?thesis
    by (cases lo; cases hi)
       (auto simp: filter_query_def matches_def operator_holds_def open_price_range_def pr)
qed

lemma matches_id: "matches [(''id'', Equals (VUuid i))] d \<longleftrightarrow> d ''id'' = Some (VUuid i)"
  by (cases "d ''id''") (auto simp: matches_def)

lemma create_unfold:
  "create g others body c =
     (case create_index ''name'' c of
        (Inl e, c1) \<Rightarrow> (Inl (create_except e), c1)
      | (Inr u, c1) \<Rightarrow>
          (case insert_one (model_dump (ProductModel g body)) (others c1) of
             (Inl e, c2) \<Rightarrow> (Inl (create_except e), c2)
           | (Inr u, c2) \<Rightarrow> (Inr (ProductModel g body), c2)))"
  by (simp add: create_def ProductOut_model_dump split: prod.splits sum.splits)

lemma create_except_cases:
  "create_except e =
     Core (CoreException InsertionException
       (case e of DuplicateKeyError s \<Rightarrow> ''Product with this name already exists.''
        | _ \<Rightarrow> ''Failed to insert product: '' @ str_exc e))"
  by (cases e) (simp_all add: init_def)

lemma ProductModel_generated:
  "ProductModel (generated n) \<lparr>name = nm, quantity = q, price = p, status = s\<rparr> = stored_product n nm q p s"
  by (simp add: ProductModel_def generated_def stored_product_def)

lemma create_product_in:
  "create (generated 1) (\<lambda>c. c) product_in empty_collection = (Inr iphone, product_inserted)"
  by (simp add: create_unfold create_index_def insert_one_def unique_ok_def empty_collection_def
      product_in_def ProductModel_generated iphone_def product_inserted_def stored_document_def)

lemma unique_ok_violated:
  assumes "k \<in> set ks" and "\<not> distinct (map (\<lambda>x. x k) ds)"
  shows "\<not> unique_ok ks ds"
  using assms unfolding unique_ok_def list_all_iff by blast

lemma insert_one_duplicate:
  assumes se: "side_effect c ''insert_one'' = None"
    and ix: "k \<in> set (unique_index c)"
    and ex: "\<exists>x \<in> set (documents c). x k = d k" and k: "k \<noteq> ''_id''"
  shows "insert_one d c = (Inl (DuplicateKeyError ''E11000 duplicate key error''), c)"
proof -
  define d' where "d' = d(''_id'' \<mapsto> VObjectId (next_oid c))"
  from ex obtain x where x: "x \<in> set (documents c)" "x k = d k"
    by blast
  from k have "d' k = d k"
    unfolding d'_def by (rule fun_upd_other)
  with x(2) have "d' k = x k"
    by (simp only:)
  with x(1) have "d' k \<in> (\<lambda>x. x k) ` set (documents c)"
    unfolding image_iff by blast
  then have "\<not> distinct (map (\<lambda>x. x k) (documents c @ [d']))"
    by simp
  with ix have "\<not> unique_ok (unique_index c) (documents c @ [d'])"
    by (rule unique_ok_violated)
  with se show ?thesis
    unfolding d'_def by (simp add: insert_one_def)
qed

lemma fst_create:
  "fst (create g others body c) =
      (case fst (create_index ''name'' c) of
         Inl e \<Rightarrow> Inl (create_except e)
       | Inr u \<Rightarrow>
          (case fst (insert_one (model_dump (ProductModel g body))
                       (others (snd (create_index ''name'' c)))) of
             Inl e \<Rightarrow> Inl (create_except e)
           | Inr u \<Rightarrow> Inr (ProductModel g body)))"
proof (cases "create_index ''name'' c")
  case (Pair r c1)
  note idx = this
  show ?thesis
  proof (cases r)
    case (Inl e)
    with idx show ?thesis by (simp add: create_unfold)
  next
    case (Inr u)
    show ?thesis
    proof (cases "insert_one (model_dump (ProductModel g body)) (others c1)")
      case (Pair r2 c2)
      with idx Inr show ?thesis
        by (cases r2) (simp_all add: create_unfold)
    qed
  qed
qed

lemma create_index_raises:
  assumes "fst (create_index ''name'' c) = Inl e"
  shows "fst (create g others body c) = Inl (create_except e)"
  using assms by (simp add: fst_create)

lemma insert_one_raises:
  assumes "fst (create_index ''name'' c) = Inr ()"
    and "fst (insert_one (model_dump (ProductModel g body))
               (others (snd (create_index ''name'' c)))) = Inl e"
  shows "fst (create g others body c) = Inl (create_except e)"
  using assms by (simp add: fst_create)

lemma create_returns:
  assumes "fst (create_index ''name'' c) = Inr ()"
    and "fst (insert_one (model_dump (ProductModel g body))
               (others (snd (create_index ''name'' c)))) = Inr ()"
  shows "fst (create g others body c) = Inr (ProductModel g body)"
  using assms by (simp add: fst_create)

lemma create_duplicate_name:
  assumes ok: "create_index ''name'' c = (Inr (), c1)"
    and se: "side_effect (others c1) ''insert_one'' = None"
    and ix: "''name'' \<in> set (unique_index (others c1))"
    and ex: "\<exists>d \<in> set (documents (others c1)). d ''name'' = Some (VStr (name body))"
  shows "create g others body c
           = (Inl (Core (CoreException InsertionException
                          ''Product with this name already exists.'')), others c1)"
proof -
  have "model_dump (ProductModel g body) ''name'' = Some (VStr (name body))"
    by (simp add: model_dump_def ProductModel_def)
  with ex have "\<exists>x \<in> set (documents (others c1)).
                  x ''name'' = model_dump (ProductModel g body) ''name''"
    by simp
  moreover have "''name'' \<noteq> ''_id''"
    by simp
  ultimately have "insert_one (model_dump (ProductModel g body)) (others c1)
      = (Inl (DuplicateKeyError ''E11000 duplicate key error''), others c1)"
    by (rule insert_one_duplicate [OF se ix])
  with ok show ?thesis
    by (simp add: create_unfold init_def)
qed

lemma create_raised:
  assumes "store_raises g others body c e"
  shows "fst (create g others body c) = Inl (create_except e)"
  using assms create_index_raises insert_one_raises unfolding store_raises_def by blast

lemma create_Inl_raised:
  assumes x: "fst (create g others body c) = Inl x"
  shows "\<exists>e. store_raises g others body c e \<and> x = create_except e"
proof (cases "fst (create_index ''name'' c)")
  case (Inl e)
  then have "store_raises g others body c e"
    by (simp add: store_raises_def)
  with create_raised [OF this] x show ?thesis by auto
next
  case (Inr u)
  then have i: "fst (create_index ''name'' c) = Inr ()" by simp
  show ?thesis
  proof (cases "fst (insert_one (model_dump (ProductModel g body))
                       (others (snd (create_index ''name'' c))))")
    case (Inl e)
    with i have "store_raises g others body c e"
      by (simp add: store_raises_def)
    with create_raised [OF this] x show ?thesis by auto
  next
    case (Inr v)
    then have "fst (insert_one (model_dump (ProductModel g body))
                       (others (snd (create_index ''name'' c)))) = Inr ()" by simp
    from create_returns [of c g body others, OF i this] x show ?thesis by simp
  qed
qed

lemma create_index_product_inserted:
  "create_index ''name'' product_inserted = (Inr (), product_inserted)"
  by (simp add: create_index_def product_inserted_def)

lemma create_index_patched_empty:
  "create_index ''name'' (patched ''insert_one'' e empty_collection)
     = (Inr (), (patched ''insert_one'' e empty_collection)\<lparr>unique_index := [''name'']\<rparr>)"
  by (simp add: create_index_def patched_def empty_collection_def unique_ok_def)

lemma store_raises_patched_empty:
  "store_raises g (\<lambda>c. c) body (patched ''insert_one'' e empty_collection) e"
  by (simp add: store_raises_def create_index_patched_empty)
     (simp add: insert_one_def patched_def empty_collection_def)

lemma str_uuid_unknown_id: "str_uuid unknown_id = ''1e4f214e-85f7-461a-89d0-a751a32e3bb9''"
  unfolding unknown_id_def by code_simp

lemma not_found_message:
  "not_found i
     = Core (CoreException NotFoundException (''Product not found with filter: '' @ str_uuid i))"
  by (simp add: not_found_def init_def)

lemma find_id_None:
  assumes "\<forall>d \<in> set (documents c). d ''id'' \<noteq> Some (VUuid i)"
  shows "List.find (matches [(''id'', Equals (VUuid i))]) (documents c) = None"
  using assms by (simp add: find_None_iff matches_id)

lemma find_id_Some:
  assumes "List.find (matches [(''id'', Equals (VUuid i))]) ds = Some d"
  shows "d ''id'' = Some (VUuid i)" and "d \<in> set ds" and "\<not> not_doc (Some d)"
proof -
  from assms obtain n where "n < length ds" and m: "matches [(''id'', Equals (VUuid i))] (ds ! n)"
    and d: "d = ds ! n"
    unfolding find_Some_iff by blast
  then show "d \<in> set ds" by simp
  from m d show i: "d ''id'' = Some (VUuid i)" by (simp add: matches_id)
  then have "d \<noteq> Map.empty" by auto
  then show "\<not> not_doc (Some d)" by simp
qed

lemma get_absent:
  assumes "\<forall>d \<in> set (documents c). d ''id'' \<noteq> Some (VUuid i)"
    and "side_effect c ''find_one'' = None"
  shows "get i c = (Inl (not_found i), c)"
  using assms(2) find_id_None [OF assms(1)] by (simp add: get_def find_one_def)

lemma delete_absent:
  assumes "\<forall>d \<in> set (documents c). d ''id'' \<noteq> Some (VUuid i)"
    and "side_effect c ''find_one'' = None"
  shows "delete others i c = (Inl (not_found i), c)"
  using assms(2) find_id_None [OF assms(1)] by (simp add: delete_def find_one_def)

lemma product_inserted_no_unknown_id:
  "\<forall>d \<in> set (documents product_inserted). d ''id'' \<noteq> Some (VUuid unknown_id)"
  by (simp add: product_inserted_def stored_document_def model_dump_def iphone_def
      stored_product_def unknown_id_def)

lemma length_remove_first:
  "length (remove_first P xs) = length xs - (if list_ex P xs then 1 else 0)"
proof (induction xs)
  case Nil
  then show ?case by simp
next
  case (Cons a xs)
  show ?case
  proof (cases "P a")
    case True
    then show ?thesis by simp
  next
    case False
    show ?thesis
    proof (cases "list_ex P xs")
      case True
      then have "xs \<noteq> []" by auto
      then have "0 < length xs" by simp
      with Cons False True show ?thesis by simp
    next
      case False
      with Cons \<open>\<not> P a\<close> show ?thesis by simp
    qed
  qed
qed

lemma set_remove_first_distinct:
  assumes "distinct (map f xs)"
  shows "set (remove_first (\<lambda>x. f x = v) xs) = {x \<in> set xs. f x \<noteq> v}"
  using assms by (induction xs) (auto simp: image_iff)

lemma find_one_present:
  assumes "side_effect c ''find_one'' = None"
    and "\<exists>d \<in> set (documents c). d ''id'' = Some (VUuid i)"
  shows "\<exists>d. find_one [(''id'', Equals (VUuid i))] c = (Inr (Some d), c) \<and> \<not> not_doc (Some d)"
proof -
  from assms(2) have "List.find (matches [(''id'', Equals (VUuid i))]) (documents c) \<noteq> None"
    unfolding find_None_iff matches_id by blast
  then obtain d where d: "List.find (matches [(''id'', Equals (VUuid i))]) (documents c) = Some d"
    by blast
  from find_id_Some(3) [OF d] d assms(1) show ?thesis
    by (simp add: find_one_def)
qed

lemma delete_present:
  assumes "side_effect c ''find_one'' = None"
    and "\<exists>d \<in> set (documents c). d ''id'' = Some (VUuid i)"
    and "side_effect (others c) ''delete_one'' = None"
  shows "delete others i c
           = (Inr (list_ex (\<lambda>d. d ''id'' = Some (VUuid i)) (documents (others c))),
              (others c)\<lparr>documents :=
                 remove_first (\<lambda>d. d ''id'' = Some (VUuid i)) (documents (others c))\<rparr>)"
proof -
  from find_one_present [OF assms(1,2)] obtain d
    where d: "find_one [(''id'', Equals (VUuid i))] c = (Inr (Some d), c)"
      and nd: "\<not> not_doc (Some d)"
    by blast
  have m: "matches [(''id'', Equals (VUuid i))] = (\<lambda>d. d ''id'' = Some (VUuid i))"
    by (rule ext) (rule matches_id)
  from assms(3) have "delete_one [(''id'', Equals (VUuid i))] (others c)
      = (Inr (if list_ex (\<lambda>d. d ''id'' = Some (VUuid i)) (documents (others c)) then 1 else 0),
         (others c)\<lparr>documents :=
            remove_first (\<lambda>d. d ''id'' = Some (VUuid i)) (documents (others c))\<rparr>)"
    by (simp add: delete_one_def m)
  with d nd show ?thesis
    by (simp add: delete_def del: not_doc.simps)
qed

lemma product_inserted_documents:
  "documents product_inserted = [stored_document 0 iphone]"
  "side_effect product_inserted m = None"
  "stored_document 0 iphone ''id'' = Some (VUuid 1)"
  by (simp_all add: product_inserted_def stored_document_def model_dump_def iphone_def
      stored_product_def)

lemma matches_id_fun:
  "matches [(''id'', Equals (VUuid i))] = (\<lambda>d. d ''id'' = Some (VUuid i))"
  by (rule ext) (rule matches_id)

lemma stored_document_nonempty: "stored_document oid p \<noteq> Map.empty"
  by (simp add: stored_document_def)

lemma find_product_inserted:
  "List.find (\<lambda>d. d ''id'' = Some (VUuid 1)) (documents product_inserted)
     = Some (stored_document 0 iphone)"
  by (simp add: product_inserted_documents)

lemma datetime_utcnow_raises: "datetime_utcnow now = Inl utcnow_error"
  by (simp add: datetime_utcnow_def datetime_module_def)

lemma update_attribute_error: "update now i body c = (Inl (Uncaught utcnow_error), c)"
  by (simp add: update_def datetime_utcnow_raises)

lemma str_utcnow_error:
  "str_exc utcnow_error
     = ''module '' @ [CHR 0x27] @ ''datetime'' @ [CHR 0x27] @ '' has no attribute ''
       @ [CHR 0x27] @ ''utcnow'' @ [CHR 0x27]"
  by (simp add: utcnow_error_def quoted_def)

lemma get_product_inserted: "get 1 product_inserted = (Inr iphone, product_inserted)"
proof -
  have "List.find (matches [(''id'', Equals (VUuid 1))]) (documents product_inserted)
          = Some (stored_document 0 iphone)"
    by (simp add: matches_id_fun find_product_inserted)
  then show ?thesis
    by (simp add: get_def find_one_def product_inserted_documents(2) ProductOut_stored_document
        stored_document_nonempty)
qed


section \<open>Properties of the error taxonomy\<close>

text \<open>
  C9. Constructing \<open>NotFoundException\<close> or \<open>InsertionException\<close> with the empty
  string as message leaves the class default in place ("Not Found" and "Error inserting
  product"); the same holds when no message is given, and only a non-empty message
  overrides the default, since the constructor tests the message for truthiness.
\<close>

theorem init_empty_message_keeps_default:
  "message (init NotFoundException (Some '''')) = ''Not Found''
   \<and> message (init InsertionException (Some '''')) = ''Error inserting product''
   \<and> message (init k (Some '''')) = class_message k
   \<and> message (init k None) = class_message k
   \<and> (m \<noteq> '''' \<longrightarrow> message (init k (Some m)) = m)
   \<and> (message (init k (Some m)) \<noteq> class_message k \<longrightarrow> m \<noteq> '''')"
  by (auto simp: init_def)

theorem init_empty_message_keeps_default_witness:
  "''x'' \<noteq> '''' \<and> message (init InsertionException (Some ''x'')) = ''x''
   \<and> message (init InsertionException (Some ''x'')) \<noteq> class_message InsertionException
   \<and> message (init NotFoundException (Some '''')) = ''Not Found''"
  using init_empty_message_keeps_default [of InsertionException "''x''"]
  by simp

section \<open>Properties of the use case\<close>

text \<open>
  C1. \<open>query\<close> returns exactly the stored Products that satisfy the open price range,
  in store order: strictly above the lower bound when one is given, strictly below the
  upper bound when one is given, all of them when neither is. It leaves the store as it
  is, and when no Product matches the result is the empty sequence, not an error.
  Here \<open>stored\<close> is the sequence of views of the stored documents.
\<close>

theorem query_open_price_range:
  assumes "side_effect c ''find'' = None"
    and "ProductOut_all (documents c) = Inr stored"
  shows "query lo hi c = (Inr (filter (open_price_range lo hi) stored), c)
         \<and> ((\<forall>p \<in> set stored. \<not> open_price_range lo hi p) \<longrightarrow> fst (query lo hi c) = Inr [])"
proof -
  have "ProductOut_all (filter (matches (filter_query lo hi)) (documents c))
          = Inr (filter (open_price_range lo hi) stored)"
    using assms(2) by (rule ProductOut_all_filter) (rule matches_filter_query)
  with assms(1) have q: "query lo hi c = (Inr (filter (open_price_range lo hi) stored), c)"
    by (simp add: query_def find_all_def)
  moreover have "(\<forall>p \<in> set stored. \<not> open_price_range lo hi p)
                   \<longrightarrow> filter (open_price_range lo hi) stored = []"
    by (simp add: filter_empty_conv)
  ultimately show ?thesis by simp
qed

theorem query_open_price_range_witness:
  "query (Some (Decimal 5000 0)) (Some (Decimal 8000 0)) products_with_varied_prices
     = (Inr [laptop_mid, smartphone], products_with_varied_prices)
   \<and> query (Some (Decimal 8000 0)) None products_with_varied_prices
     = (Inr [laptop_high], products_with_varied_prices)
   \<and> query None (Some (Decimal 5000 0)) products_with_varied_prices
     = (Inr [laptop_basic, tablet], products_with_varied_prices)
   \<and> query None None products_with_varied_prices
     = (Inr [laptop_basic, laptop_mid, laptop_high, tablet, smartphone], products_with_varied_prices)
   \<and> fst (query (Some (Decimal 9000 0)) None products_with_varied_prices) = Inr []"
proof -
  have se: "side_effect products_with_varied_prices ''find'' = None"
    by (simp add: products_with_varied_prices_def)
  have st: "ProductOut_all (documents products_with_varied_prices)
     = Inr [laptop_basic, laptop_mid, laptop_high, tablet, smartphone]"
  by (simp add: products_with_varied_prices_def ProductOut_stored_document)
  note q = query_open_price_range [OF se st]
  show ?thesis
    using q [of "Some (Decimal 5000 0)" "Some (Decimal 8000 0)"]
      q [of "Some (Decimal 8000 0)" None] q [of None "Some (Decimal 5000 0)"] q [of None None]
      q [of "Some (Decimal 9000 0)" None]
    by (simp add: open_price_range_def dec_value_def laptop_basic_def laptop_mid_def laptop_high_def tablet_def smartphone_def stored_product_def)
qed

text \<open>
  C7. When \<open>create\<close> succeeds, the returned view carries the input's \<open>name\<close>,
  \<open>quantity\<close>, \<open>price\<close> and \<open>status\<close> unchanged (the price as the same decimal,
  coefficient and exponent), and its \<open>id\<close>, \<open>created_at\<close> and \<open>updated_at\<close> are
  the generated values, not taken from the input.
\<close>

theorem create_returns_input_fields:
  assumes "fst (create g others body c) = Inr out"
  shows "name out = name body \<and> quantity out = quantity body \<and> price out = price body
         \<and> status out = status body
         \<and> id_of out = uuid4 g \<and> created_at out = utcnow_created g
         \<and> updated_at out = utcnow_updated g"
proof -
  from assms have "out = ProductModel g body"
    by (auto simp: create_unfold split: prod.splits sum.splits)
  then show ?thesis by (simp add: ProductModel_def)
qed

theorem create_returns_input_fields_witness:
  "fst (create (generated 1) (\<lambda>c. c) product_in empty_collection) = Inr iphone
   \<and> name iphone = ''Iphone 14 Pro Max'' \<and> quantity iphone = 10
   \<and> price iphone = Decimal 8500 (- 3) \<and> status iphone = True"
proof -
  have h: "fst (create (generated 1) (\<lambda>c. c) product_in empty_collection) = Inr iphone"
    by (simp add: create_product_in)
  from create_returns_input_fields [OF h] h show ?thesis
    by (simp add: product_in_def)
qed

text \<open>
  C4. The failures of \<open>create\<close>. Inserting a name that a stored document already has,
  under the unique index, fails with \<open>InsertionException\<close> and the message "Product
  with this name already exists.", and stores nothing. Whenever the index registration
  or the insert raises a duplicate-key error the message is that one; whenever either
  raises any other exception \<open>e\<close> the message is "Failed to insert product: " followed
  by the text of \<open>e\<close>. Every failure of \<open>create\<close> is one of these
  \<open>InsertionException\<close>s, raised for an exception of the store.
\<close>

theorem create_error_mapping:
  "(create_index ''name'' c = (Inr (), c1) \<and> side_effect (others c1) ''insert_one'' = None
      \<and> ''name'' \<in> set (unique_index (others c1))
      \<and> (\<exists>d \<in> set (documents (others c1)). d ''name'' = Some (VStr (name body)))
    \<longrightarrow> create g others body c
          = (Inl (Core (CoreException InsertionException
                         ''Product with this name already exists.'')), others c1))
   \<and> (store_raises g others body c (DuplicateKeyError s)
        \<longrightarrow> fst (create g others body c)
            = Inl (Core (CoreException InsertionException
                          ''Product with this name already exists.'')))
   \<and> (store_raises g others body c e \<and> (\<forall>s. e \<noteq> DuplicateKeyError s)
        \<longrightarrow> fst (create g others body c)
            = Inl (Core (CoreException InsertionException
                          (''Failed to insert product: '' @ str_exc e))))
   \<and> (fst (create g others body c) = Inl x
        \<longrightarrow> (\<exists>e. store_raises g others body c e \<and> x = create_except e)
            \<and> (\<exists>m. x = Core (CoreException InsertionException m)))"
proof (intro conjI impI)
  assume "create_index ''name'' c = (Inr (), c1) \<and> side_effect (others c1) ''insert_one'' = None
      \<and> ''name'' \<in> set (unique_index (others c1))
      \<and> (\<exists>d \<in> set (documents (others c1)). d ''name'' = Some (VStr (name body)))"
  then show "create g others body c
          = (Inl (Core (CoreException InsertionException
                         ''Product with this name already exists.'')), others c1)"
    by (intro create_duplicate_name) simp_all
next
  assume "store_raises g others body c (DuplicateKeyError s)"
  from create_raised [OF this]
  show "fst (create g others body c)
            = Inl (Core (CoreException InsertionException
                          ''Product with this name already exists.''))"
    by (simp add: init_def)
next
  assume a: "store_raises g others body c e \<and> (\<forall>s. e \<noteq> DuplicateKeyError s)"
  then have "fst (create g others body c) = Inl (create_except e)"
    by (intro create_raised) simp
  with a show "fst (create g others body c)
            = Inl (Core (CoreException InsertionException
                          (''Failed to insert product: '' @ str_exc e)))"
    by (cases e) (simp_all add: init_def)
next
  assume x: "fst (create g others body c) = Inl x"
  from create_Inl_raised [OF x]
  show r: "\<exists>e. store_raises g others body c e \<and> x = create_except e" .
  then show "\<exists>m. x = Core (CoreException InsertionException m)"
    by (auto simp: create_except_cases)
qed

theorem create_error_mapping_witness:
  "create (generated 2) (\<lambda>c. c) product_in product_inserted
     = (Inl (Core (CoreException InsertionException
                    ''Product with this name already exists.'')), product_inserted)
   \<and> fst (create (generated 1) (\<lambda>c. c) product_in
            (patched ''insert_one'' (DuplicateKeyError ''Duplicate key error'') empty_collection))
     = Inl (Core (CoreException InsertionException ''Product with this name already exists.''))
   \<and> fst (create (generated 1) (\<lambda>c. c) product_in
            (patched ''insert_one'' (Exception ''Simulated DB Error'') empty_collection))
     = Inl (Core (CoreException InsertionException
                   ''Failed to insert product: Simulated DB Error''))
   \<and> (\<exists>m. create_except (Exception ''Simulated DB Error'')
            = Core (CoreException InsertionException m))"
proof -
  have dup: "\<exists>d \<in> set (documents product_inserted). d ''name'' = Some (VStr (name product_in))"
    by (simp add: product_inserted_def stored_document_def model_dump_def iphone_def
        stored_product_def product_in_def)
  have se: "side_effect product_inserted ''insert_one'' = None"
    and ix: "''name'' \<in> set (unique_index product_inserted)"
    by (simp_all add: product_inserted_def)
  note t1 = create_error_mapping [where c = product_inserted and ?c1.0 = product_inserted
      and others = "\<lambda>c. c" and body = product_in and g = "generated 2"]
  note t2 = create_error_mapping [where others = "\<lambda>c. c" and body = product_in
      and g = "generated 1" and s = "''Duplicate key error''"
      and c = "patched ''insert_one'' (DuplicateKeyError ''Duplicate key error'') empty_collection"]
  note t3 = create_error_mapping [where others = "\<lambda>c. c" and body = product_in
      and g = "generated 1" and e = "Exception ''Simulated DB Error''"
      and c = "patched ''insert_one'' (Exception ''Simulated DB Error'') empty_collection"
      and x = "create_except (Exception ''Simulated DB Error'')"]
  from t1 dup se ix have a: "create (generated 2) (\<lambda>c. c) product_in product_inserted
     = (Inl (Core (CoreException InsertionException
                    ''Product with this name already exists.'')), product_inserted)"
    by (simp add: create_index_product_inserted)
  from t2 have b: "fst (create (generated 1) (\<lambda>c. c) product_in
            (patched ''insert_one'' (DuplicateKeyError ''Duplicate key error'') empty_collection))
     = Inl (Core (CoreException InsertionException ''Product with this name already exists.''))"
    by (simp add: store_raises_patched_empty)
  from t3 have c: "fst (create (generated 1) (\<lambda>c. c) product_in
            (patched ''insert_one'' (Exception ''Simulated DB Error'') empty_collection))
     = Inl (Core (CoreException InsertionException
                   ''Failed to insert product: Simulated DB Error''))"
    by (simp add: store_raises_patched_empty)
  from t3 c have d: "\<exists>m. create_except (Exception ''Simulated DB Error'')
            = Core (CoreException InsertionException m)"
    by (simp add: init_def)
  from a b c d show ?thesis by blast
qed

text \<open>
  C6. \<open>delete\<close> on an id that a stored document has at the existence check. Between
  the check and the removal other requests may change the collection (\<open>others\<close>);
  identifiers are unique among the documents the removal then finds. The call returns
  true exactly when a document was actually removed, that is, when one with this id was
  still there, and false otherwise; without interference it returns true. Afterwards no
  document with this id is left, all other documents are, and a subsequent \<open>get\<close> of
  the id fails with \<open>NotFoundException\<close>.
\<close>

theorem delete_removes_record:
  assumes "side_effect c ''find_one'' = None"
    and "\<exists>d \<in> set (documents c). d ''id'' = Some (VUuid i)"
    and "side_effect (others c) ''delete_one'' = None"
    and "side_effect (others c) ''find_one'' = None"
    and "distinct (map (\<lambda>d. d ''id'') (documents (others c)))"
  shows "fst (delete others i c)
           = Inr (length (documents (snd (delete others i c))) < length (documents (others c)))
         \<and> fst (delete others i c)
           = Inr (\<exists>d \<in> set (documents (others c)). d ''id'' = Some (VUuid i))
         \<and> (others c = c \<longrightarrow> fst (delete others i c) = Inr True)
         \<and> set (documents (snd (delete others i c)))
           = {d \<in> set (documents (others c)). d ''id'' \<noteq> Some (VUuid i)}
         \<and> get i (snd (delete others i c))
           = (Inl (Core (CoreException NotFoundException
                          (''Product not found with filter: '' @ str_uuid i))),
              snd (delete others i c))"
proof -
  let ?P = "\<lambda>d. d ''id'' = Some (VUuid i)"
  let ?c' = "(others c)\<lparr>documents := remove_first ?P (documents (others c))\<rparr>"
  note del = delete_present [of c i others, OF assms(1,2,3)]
  have r: "fst (delete others i c) = Inr (list_ex ?P (documents (others c)))"
    and s: "snd (delete others i c) = ?c'"
    by (simp_all add: del)
  have len: "length (documents ?c') < length (documents (others c))
               \<longleftrightarrow> list_ex ?P (documents (others c))"
  proof (cases "list_ex ?P (documents (others c))")
    case True
    then have "documents (others c) \<noteq> []" by auto
    then have "0 < length (documents (others c))" by simp
    with True show ?thesis by (simp add: length_remove_first)
  next
    case False
    then show ?thesis by (simp add: length_remove_first)
  qed
  have docs: "set (documents ?c') = {d \<in> set (documents (others c)). d ''id'' \<noteq> Some (VUuid i)}"
    using set_remove_first_distinct [OF assms(5)] by simp
  then have absent: "\<forall>d \<in> set (documents ?c'). d ''id'' \<noteq> Some (VUuid i)"
    by blast
  have "side_effect ?c' ''find_one'' = None"
    using assms(4) by simp
  from get_absent [OF absent this]
  have g: "get i ?c' = (Inl (not_found i), ?c')" .
  have seq: "fst (delete others i c) = Inr True" if "others c = c"
    using assms(2) that by (simp add: r list_ex_iff)
  show ?thesis
    unfolding s using r len docs g seq
    by (simp add: not_found_message list_ex_iff)
qed

theorem delete_removes_record_witness:
  "fst (delete (\<lambda>c. c) 1 product_inserted) = Inr True
   \<and> set (documents (snd (delete (\<lambda>c. c) 1 product_inserted))) = {}
   \<and> fst (get 1 (snd (delete (\<lambda>c. c) 1 product_inserted)))
       = Inl (Core (CoreException NotFoundException
                     (''Product not found with filter: '' @ str_uuid 1)))
   \<and> fst (delete (\<lambda>c. c\<lparr>documents := []\<rparr>) 1 product_inserted) = Inr False"
proof -
  have p: "\<exists>d \<in> set (documents product_inserted). d ''id'' = Some (VUuid 1)"
    by (simp add: product_inserted_documents)
  have a: "fst (delete (\<lambda>c. c) 1 product_inserted) = Inr True
   \<and> set (documents (snd (delete (\<lambda>c. c) 1 product_inserted))) = {}
   \<and> fst (get 1 (snd (delete (\<lambda>c. c) 1 product_inserted)))
       = Inl (Core (CoreException NotFoundException
                     (''Product not found with filter: '' @ str_uuid 1)))"
    using delete_removes_record [where c = product_inserted and i = 1 and others = "\<lambda>c. c", OF _ p]
    by (auto simp: product_inserted_documents)
  have b: "fst (delete (\<lambda>c. c\<lparr>documents := []\<rparr>) 1 product_inserted) = Inr False"
    using delete_removes_record [where c = product_inserted and i = 1
        and others = "\<lambda>c. c\<lparr>documents := []\<rparr>", OF _ p]
    by (simp add: product_inserted_documents)
  from a b show ?thesis by blast
qed

section \<open>The failing update\<close>

text \<open>
  C2 (what the code does). Every call of \<open>update\<close> raises the \<open>AttributeError\<close> of
  line 57 and leaves the collection as it was, also when a stored Product matches the
  id: for the inserted product and the body of the PATCH test (price 7.500) nothing is
  merged and no view is returned, and a following \<open>get\<close> still returns the product
  with price 8.500 and its old \<open>updated_at\<close>.
\<close>

theorem update_returns_no_merged_view:
  "update now i body c = (Inl (Uncaught utcnow_error), c)
   \<and> get 1 product_inserted = (Inr iphone, product_inserted)
   \<and> field_value (price_up product_up) = Some (Decimal 7500 (- 3))
   \<and> fst (update now 1 product_up product_inserted) = Inl (Uncaught utcnow_error)
   \<and> get 1 (snd (update now 1 product_up product_inserted)) = (Inr iphone, product_inserted)
   \<and> price iphone = Decimal 8500 (- 3)"
  by (simp add: update_attribute_error get_product_inserted product_up_def iphone_def
      stored_product_def)

text \<open>
  C3 (what the code does). With \<open>find_one_and_update\<close> patched to raise \<open>e\<close>, as the
  test suite does, \<open>update\<close> raises the \<open>AttributeError\<close> of line 57, a raw
  lower-level exception, and not an \<open>InsertionException\<close> with the message "Failed to
  update product: " followed by the text of \<open>e\<close>. No call of \<open>update\<close> raises an
  \<open>InsertionException\<close>.
\<close>

theorem update_store_failure_escapes:
  "update now i body (patched ''find_one_and_update'' e c)
     = (Inl (Uncaught utcnow_error), patched ''find_one_and_update'' e c)
   \<and> fst (update now i body (patched ''find_one_and_update'' e c))
     \<noteq> Inl (Core (CoreException InsertionException (''Failed to update product: '' @ str_exc e)))
   \<and> fst (update now i body c) \<noteq> Inl (Core (CoreException InsertionException m))"
  by (simp add: update_attribute_error)

text \<open>
  C5 (what the code does). When no stored document has the given \<open>id\<close>, \<open>get\<close> and
  \<open>delete\<close> fail with \<open>NotFoundException\<close> whose message is "Product not found with
  filter: " followed by the text of the id, and leave the collection exactly as it was.
  \<open>update\<close> leaves it as it was too, but raises the \<open>AttributeError\<close> of line 57
  instead of \<open>NotFoundException\<close>.
\<close>

theorem not_found_get_delete_not_update:
  assumes "\<forall>d \<in> set (documents c). d ''id'' \<noteq> Some (VUuid i)"
    and "side_effect c ''find_one'' = None"
  shows "get i c
           = (Inl (Core (CoreException NotFoundException
                          (''Product not found with filter: '' @ str_uuid i))), c)
         \<and> delete others i c
           = (Inl (Core (CoreException NotFoundException
                          (''Product not found with filter: '' @ str_uuid i))), c)
         \<and> update now i body c = (Inl (Uncaught utcnow_error), c)
         \<and> fst (update now i body c)
           \<noteq> Inl (Core (CoreException NotFoundException
                          (''Product not found with filter: '' @ str_uuid i)))"
  using get_absent [OF assms] delete_absent [OF assms]
  by (simp add: not_found_message update_attribute_error)

theorem not_found_get_delete_not_update_witness:
  "get unknown_id product_inserted
     = (Inl (Core (CoreException NotFoundException
          ''Product not found with filter: 1e4f214e-85f7-461a-89d0-a751a32e3bb9'')),
        product_inserted)
   \<and> delete (\<lambda>c. c) unknown_id product_inserted
     = (Inl (Core (CoreException NotFoundException
          ''Product not found with filter: 1e4f214e-85f7-461a-89d0-a751a32e3bb9'')),
        product_inserted)
   \<and> update 2 unknown_id product_up product_inserted
     = (Inl (Uncaught utcnow_error), product_inserted)"
proof -
  have se: "side_effect product_inserted ''find_one'' = None"
    by (simp add: product_inserted_def)
  from not_found_get_delete_not_update [OF product_inserted_no_unknown_id se,
      of "\<lambda>c. c" 2 product_up]
  show ?thesis
    by (simp only: str_uuid_unknown_id append.simps)
qed



end
